theory Spec2Isabelle
  imports Main
begin

section \<open>Strings as the notification handler uses them\<close>

text \<open>
  Strings are lists of 8-bit characters, read as the code points U+0000 to U+00FF.
  An inbound line is the text that the platform's decoder yields; an outbound command is
  kept as the text that is handed to the platform's encoder.
\<close>

text \<open>\<^verbatim>\<open>String.prototype.startsWith\<close>.\<close>

definition js_startsWith :: "string \<Rightarrow> string \<Rightarrow> bool" where
  "js_startsWith s p = (take (length p) s = p)"

text \<open>\<^verbatim>\<open>String.prototype.includes\<close>: the pattern occurs at some position.\<close>

fun js_includes :: "string \<Rightarrow> string \<Rightarrow> bool" where
  "js_includes [] p = (p = [])"
| "js_includes (c # cs) p = (js_startsWith (c # cs) p \<or> js_includes cs p)"

text \<open>
  \<^verbatim>\<open>String.prototype.trim\<close> removes white space and line terminators at both ends;
  below U+0100 these are U+0009 to U+000D, U+0020 and U+00A0.
\<close>

definition isWhiteSpace :: "char \<Rightarrow> bool" where
  "isWhiteSpace c = ((of_char c :: nat) \<in> {9, 10, 11, 12, 13, 32, 160})"

definition js_trim :: "string \<Rightarrow> string" where
  "js_trim s = rev (dropWhile isWhiteSpace (rev (dropWhile isWhiteSpace s)))"

text \<open>
  \<^verbatim>\<open>String.prototype.split\<close> with a string separator: the text is cut at every
  occurrence of the separator, scanning from the left; \<open>cur\<close> holds the piece being
  read, reversed.  An empty separator cuts between all characters.
\<close>

function split_from :: "string \<Rightarrow> string \<Rightarrow> string \<Rightarrow> string list" where
  "split_from sep cur [] = [rev cur]"
| "split_from sep cur (c # cs) =
     (if sep \<noteq> [] \<and> js_startsWith (c # cs) sep
      then rev cur # split_from sep [] (drop (length sep) (c # cs))
      else split_from sep (c # cur) cs)"
  by pat_completeness auto
termination
  by (relation "measure (\<lambda>(sep, cur, s). length s)") (auto simp: neq_Nil_conv)

definition js_split :: "string \<Rightarrow> string \<Rightarrow> string list" where
  "js_split s sep = (if sep = [] then map (\<lambda>c. [c]) s else split_from sep [] s)"

section \<open>Errors and results\<close>

text \<open>
  \<open>TypeError\<close> is what calling a method on \<^verbatim>\<open>undefined\<close> throws, \<open>WriteError\<close> the
  rejection of a write by the link.  An asynchronous method yields the state it leaves
  behind together with the way its promise settles.
\<close>

datatype error = TypeError | WriteError

datatype outcome = Resolved | Rejected error

section \<open>Decoding an inbound line\<close>

datatype event =
    DeviceNameEvent string
  | FirmwareEvent string
  | BatteryEvent string
  | ModeEvent string
  | UnrecognizedEvent string

text \<open>The element at index 1 of an array; reading a property of \<^verbatim>\<open>undefined\<close> throws.\<close>

definition index1 :: "string list \<Rightarrow> error + string" where
  "index1 xs = (case xs of _ # x # _ \<Rightarrow> Inr x | _ \<Rightarrow> Inl TypeError)"

text \<open>The chain of conditional expressions of \<^verbatim>\<open>handleNotification\<close> (line 145).\<close>

definition modeLabel :: "string \<Rightarrow> string" where
  "modeLabel m =
     (if m = ''0'' then ''OFF''
      else if m = ''A'' then ''LEFT''
      else if m = ''C'' then ''RIGHT''
      else if m = ''D'' then ''BOTH''
      else m)"

text \<open>
  The classification of \<^verbatim>\<open>handleNotification\<close> (lines 136 to 147): the tests are made
  on the raw text in this order, and the first that succeeds decides.
\<close>

definition decode :: "string \<Rightarrow> error + event" where
  "decode v =
     (if js_startsWith v ''Pulsetto_'' then Inr (DeviceNameEvent (js_trim v))
      else if js_startsWith v ''fw:'' then Inr (FirmwareEvent (js_trim v))
      else if js_includes v ''Batt:'' then
        (case index1 (js_split v ''Batt:'') of
           Inl e \<Rightarrow> Inl e
         | Inr seg \<Rightarrow> Inr (BatteryEvent (js_trim seg)))
      else if js_includes v ''mode:'' then
        (case index1 (js_split v ''mode:'') of
           Inl e \<Rightarrow> Inl e
         | Inr seg \<Rightarrow> Inr (ModeEvent (modeLabel (js_trim seg))))
      else Inr (UnrecognizedEvent v))"

section \<open>Numbers as text\<close>

text \<open>\<^verbatim>\<open>Number.prototype.toString\<close> on an integer: decimal digits, a minus sign when negative.\<close>

fun digitsOf :: "nat \<Rightarrow> string" where
  "digitsOf n =
     (if n < 10 then [''0123456789'' ! n]
      else digitsOf (n div 10) @ [''0123456789'' ! (n mod 10)])"

declare digitsOf.simps [simp del]

definition toString :: "int \<Rightarrow> string" where
  "toString i = (if i < 0 then CHR ''-'' # digitsOf (nat (- i)) else digitsOf (nat i))"

text \<open>\<^verbatim>\<open>Number.MAX_SAFE_INTEGER\<close>, which is \<open>2 ^ 53 - 1\<close>.\<close>

definition MAX_SAFE_INTEGER :: int where
  "MAX_SAFE_INTEGER = 9007199254740991"

text \<open>
  The timer functions of the platform take their delay as a signed 32-bit integer: the
  number is reduced modulo \<open>2 ^ 32\<close> into the range from \<open>- 2 ^ 31\<close> to \<open>2 ^ 31 - 1\<close>,
  and a negative delay counts as zero.  A delay of \<open>2 ^ 31\<close> ms or a little more
  therefore means no delay at all.
\<close>

definition toInt32 :: "int \<Rightarrow> int" where
  "toInt32 n = (n + 2147483648) mod 4294967296 - 2147483648"

definition timeoutDelay :: "int \<Rightarrow> int" where
  "timeoutDelay ms = max 0 (toInt32 ms)"

text \<open>\<^verbatim>\<open>padStart(2, '0')\<close>.\<close>

definition padStart2 :: "string \<Rightarrow> string" where
  "padStart2 t = replicate (2 - length t) CHR ''0'' @ t"

text \<open>The remainder operator of the language takes the sign of the dividend.\<close>

definition js_rem :: "int \<Rightarrow> int \<Rightarrow> int" where
  "js_rem a b = sgn a * (\<bar>a\<bar> mod \<bar>b\<bar>)"

section \<open>The controller, the page and the link\<close>

datatype handle = BluetoothDevice | GattServer | GattService | GattCharacteristic string

text \<open>The functions handed to \<^verbatim>\<open>setInterval\<close> and \<^verbatim>\<open>setTimeout\<close> (lines 178, 213, 279).\<close>

datatype callback = UpdateTimer | PollStatus | AutoStop

text \<open>A repeating timer with its period, a one-shot timer with the time it is due; milliseconds.\<close>

datatype timer = Every int callback | After int callback

record preset =
  name :: string
  mode :: string
  intensity :: int
  duration :: int

text \<open>
  One record holds the fields of the controller object (lines 4 to 14), the properties of
  the page elements that the methods read and write, and the platform: clock, alerts,
  timers and the link.  Of the page, text contents, values and \<^verbatim>\<open>disabled\<close> flags are
  kept; style classes and the label of the connect button are not.  The slider value is
  held as the integer that \<^verbatim>\<open>parseInt\<close> reads from it.

  Numbers are integers.  The platform's numbers are exact, and their decimal text is the
  plain digit string, up to \<open>MAX_SAFE_INTEGER\<close> in absolute value.

  \<open>writeCalls\<close> lists the texts whose encodings were handed to \<^verbatim>\<open>writeValue\<close>, oldest
  first.  \<open>faults\<close>
  tells how the link will answer the coming calls: the head is for the next call, \<open>True\<close>
  means that the call is rejected, and an exhausted list means acceptance.

  Every method, listener and timer callback is run to its end before the next one starts:
  what other handlers might do while a method waits is not part of the model.
\<close>

record state =
  device :: "handle option"
  server :: "handle option"
  service :: "handle option"
  writeCharacteristic :: "handle option"
  notifyCharacteristic :: "handle option"
  currentMode :: string
  currentIntensity :: int
  sessionActive :: bool
  sessionStartTime :: "int option"
  timerInterval :: "nat option"
  presets :: "preset list"
  deviceNameText :: string
  firmwareText :: string
  batteryText :: string
  modeText :: string
  timerText :: string
  sliderValue :: int
  intensityDisplay :: string
  startBtnDisabled :: bool
  connectBtnDisabled :: bool
  storedPresets :: "preset list option"
  now :: int
  alerts :: "string list"
  timers :: "nat \<rightharpoonup> timer"
  lastTimerId :: nat
  listeners :: nat
  writeCalls :: "string list"
  faults :: "bool list"

text \<open>The device-reported fields that the page shows.\<close>

definition deviceStatus :: "state \<Rightarrow> string \<times> string \<times> string \<times> string" where
  "deviceStatus s = (deviceNameText s, firmwareText s, batteryText s, modeText s)"

text \<open>
  The test by which \<^verbatim>\<open>sendCommand\<close> (line 120) and the status poll (line 214) decide
  whether there is a link to write to.  The source keeps no other connection state.
\<close>

definition connected :: "state \<Rightarrow> bool" where
  "connected s = (writeCharacteristic s \<noteq> None)"

text \<open>The handles that \<^verbatim>\<open>connect\<close> obtains.\<close>

definition linkHandles ::
  "state \<Rightarrow> handle option \<times> handle option \<times> handle option \<times> handle option \<times> handle option" where
  "linkHandles s =
     (device s, server s, service s, writeCharacteristic s, notifyCharacteristic s)"

text \<open>The link accepts the next \<open>n\<close> calls of \<^verbatim>\<open>writeValue\<close>.\<close>

definition linkAccepts :: "nat \<Rightarrow> state \<Rightarrow> bool" where
  "linkAccepts n s = (True \<notin> set (take n (faults s)))"

subsection \<open>Platform services\<close>

definition alert :: "string \<Rightarrow> state \<Rightarrow> state" where
  "alert msg s = s\<lparr>alerts := alerts s @ [msg]\<rparr>"

text \<open>
  The platform keeps its active timers in a table from handles to callbacks, shared by
  repeating and one-shot timers.  Handles are positive and fresh.
\<close>

definition setInterval :: "callback \<Rightarrow> int \<Rightarrow> state \<Rightarrow> nat \<times> state" where
  "setInterval cb ms s =
     (let i = Suc (lastTimerId s)
      in (i, s\<lparr>lastTimerId := i, timers := (timers s)(i \<mapsto> Every (timeoutDelay ms) cb)\<rparr>))"

definition setTimeout :: "callback \<Rightarrow> int \<Rightarrow> state \<Rightarrow> nat \<times> state" where
  "setTimeout cb ms s =
     (let i = Suc (lastTimerId s)
      in (i, s\<lparr>lastTimerId := i, timers := (timers s)(i \<mapsto> After (now s + timeoutDelay ms) cb)\<rparr>))"

definition clearInterval :: "nat \<Rightarrow> state \<Rightarrow> state" where
  "clearInterval i s = s\<lparr>timers := (timers s)(i := None)\<rparr>"

text \<open>Sequencing of awaited steps: a rejection ends the method with the state reached.\<close>

definition await :: "state \<times> outcome \<Rightarrow> (state \<Rightarrow> state \<times> outcome) \<Rightarrow> state \<times> outcome" where
  "await r k = (case r of (s, Resolved) \<Rightarrow> k s | (s, Rejected e) \<Rightarrow> (s, Rejected e))"

text \<open>
  \<^verbatim>\<open>delay\<close> (line 309), awaited: a one-shot timer of the given delay resolves the
  promise, and the clock has moved on by that delay.
\<close>

definition delay :: "int \<Rightarrow> state \<Rightarrow> state \<times> outcome" where
  "delay ms s = (s\<lparr>now := now s + timeoutDelay ms\<rparr>, Resolved)"

text \<open>The link's \<^verbatim>\<open>writeValue\<close>.\<close>

definition writeValue :: "string \<Rightarrow> state \<Rightarrow> state \<times> outcome" where
  "writeValue bytes s =
     (case faults s of
        [] \<Rightarrow> (s\<lparr>writeCalls := writeCalls s @ [bytes]\<rparr>, Resolved)
      | f # fs \<Rightarrow>
          (s\<lparr>writeCalls := writeCalls s @ [bytes], faults := fs\<rparr>,
           if f then Rejected WriteError else Resolved))"

subsection \<open>Commands\<close>

definition sendCommand :: "string \<Rightarrow> state \<Rightarrow> state \<times> outcome" where
  "sendCommand cmd s =
     (case writeCharacteristic s of
        None \<Rightarrow> (s, Resolved)
      | Some _ \<Rightarrow> writeValue (cmd @ [CHR 0x0A]) s)"

definition setMode :: "string \<Rightarrow> state \<Rightarrow> state \<times> outcome" where
  "setMode m s = sendCommand m (s\<lparr>currentMode := m\<rparr>)"

definition setIntensity :: "int \<Rightarrow> state \<Rightarrow> state \<times> outcome" where
  "setIntensity level s = sendCommand (toString level) (s\<lparr>currentIntensity := level\<rparr>)"

subsection \<open>Sessions\<close>

text \<open>An empty mode is the falsy value that line 161 tests for.\<close>

definition startSession :: "state \<Rightarrow> state \<times> outcome" where
  "startSession s =
     (if currentMode s = [] then (alert ''Please select a mode first'' s, Resolved)
      else
        let s1 = s\<lparr>sessionActive := True, sessionStartTime := Some (now s)\<rparr> in
        await (setMode (currentMode s1) s1) (\<lambda>s2.
        await (delay 100 s2) (\<lambda>s3.
        let level = sliderValue s3 in
        await (if level > 0 then setIntensity level s3 else (s3, Resolved)) (\<lambda>s4.
        let (i, s5) = setInterval UpdateTimer 1000 s4
        in (s5\<lparr>timerInterval := Some i, startBtnDisabled := True\<rparr>, Resolved)))))"

text \<open>A handle is truthy when it is set and not zero (line 187).\<close>

definition stopSession :: "state \<Rightarrow> state \<times> outcome" where
  "stopSession s =
     (let s1 = s\<lparr>sessionActive := False\<rparr>;
          s2 = (case timerInterval s1 of
                  None \<Rightarrow> s1
                | Some i \<Rightarrow> if i = 0 then s1 else (clearInterval i s1)\<lparr>timerInterval := None\<rparr>)
      in await (sendCommand ''-'' s2) (\<lambda>s3.
           (s3\<lparr>timerText := ''00:00'', startBtnDisabled := False\<rparr>, Resolved)))"

text \<open>A start time that is unset or zero is falsy (line 202).\<close>

definition updateTimer :: "state \<Rightarrow> state" where
  "updateTimer s =
     (case sessionStartTime s of
        None \<Rightarrow> s
      | Some t \<Rightarrow>
          if t = 0 then s
          else
            let elapsed = (now s - t) div 1000;
                minutes = elapsed div 60;
                seconds = js_rem elapsed 60
            in s\<lparr>timerText := padStart2 (toString minutes) @ '':'' @ padStart2 (toString seconds)\<rparr>)"

text \<open>The body of the status poll (lines 214 to 216).\<close>

definition pollTick :: "state \<Rightarrow> state \<times> outcome" where
  "pollTick s = (if writeCharacteristic s \<noteq> None then sendCommand ''Q'' s else (s, Resolved))"

definition startStatusPolling :: "state \<Rightarrow> state" where
  "startStatusPolling s = snd (setInterval PollStatus 3000 s)"

definition loadPreset :: "preset \<Rightarrow> state \<Rightarrow> state \<times> outcome" where
  "loadPreset p s =
     (let s1 = s\<lparr>currentMode := mode p\<rparr>;
          s2 = s1\<lparr>sliderValue := intensity p, intensityDisplay := toString (intensity p)\<rparr>
      in await (startSession s2) (\<lambda>s3.
           (snd (setTimeout AutoStop (duration p * 60 * 1000) s3), Resolved)))"

subsection \<open>Connecting\<close>

text \<open>The awaited steps of \<^verbatim>\<open>connect\<close> (lines 71 to 87), each of which the platform may reject.\<close>

datatype stage =
    Discovery
  | GattConnect
  | ServiceResolution
  | WriteCharResolution
  | NotifyCharResolution
  | NotificationSubscription

definition WRITE_UUID :: string where
  "WRITE_UUID = ''6e400002-b5a3-f393-e0a9-e50e24dcca9e''"

definition NOTIFY_UUID :: string where
  "NOTIFY_UUID = ''6e400003-b5a3-f393-e0a9-e50e24dcca9e''"

text \<open>\<^verbatim>\<open>onConnected\<close> (lines 98 to 117): the three queries, paced, then the status poll.\<close>

definition onConnected :: "state \<Rightarrow> state \<times> outcome" where
  "onConnected s =
     (let s1 = s\<lparr>connectBtnDisabled := True\<rparr> in
      await (sendCommand ''i'' s1) (\<lambda>s2.
      await (delay 100 s2) (\<lambda>s3.
      await (sendCommand ''v'' s3) (\<lambda>s4.
      await (delay 100 s4) (\<lambda>s5.
      await (sendCommand ''Q'' s5) (\<lambda>s6.
      (startStatusPolling s6, Resolved)))))))"

text \<open>
  \<^verbatim>\<open>connect\<close>.  The argument tells which step the platform rejects, if any, and with what
  message.  Every assignment made before the rejected step stays; the handler of line 92
  reports the error and the method ends normally.  \<^verbatim>\<open>onConnected\<close> is started without
  being awaited, so its own result is dropped.
\<close>

definition connect :: "(stage \<times> string) option \<Rightarrow> state \<Rightarrow> state \<times> outcome" where
  "connect failure s =
     (let fails = (\<lambda>st. case failure of None \<Rightarrow> False | Some (st', _) \<Rightarrow> st' = st);
          msg = (case failure of None \<Rightarrow> [] | Some (_, m) \<Rightarrow> m);
          caught = (\<lambda>s'. (alert (''Failed to connect: '' @ msg) s', Resolved))
      in
      if fails Discovery then caught s else
      let s1 = s\<lparr>device := Some BluetoothDevice\<rparr> in
      if fails GattConnect then caught s1 else
      let s2 = s1\<lparr>server := Some GattServer\<rparr> in
      if fails ServiceResolution then caught s2 else
      let s3 = s2\<lparr>service := Some GattService\<rparr> in
      if fails WriteCharResolution then caught s3 else
      let s4 = s3\<lparr>writeCharacteristic := Some (GattCharacteristic WRITE_UUID)\<rparr> in
      if fails NotifyCharResolution then caught s4 else
      let s5 = s4\<lparr>notifyCharacteristic := Some (GattCharacteristic NOTIFY_UUID)\<rparr> in
      if fails NotificationSubscription then caught s5 else
      let s6 = s5\<lparr>listeners := Suc (listeners s5)\<rparr>
      in (fst (onConnected s6), Resolved))"

subsection \<open>Notifications\<close>

text \<open>
  \<^verbatim>\<open>handleNotification\<close> (lines 130 to 148) on the decoded text: the page field that the
  classified line belongs to is overwritten.  An exception leaves the page as it is.
\<close>

definition handleNotification :: "string \<Rightarrow> state \<Rightarrow> state" where
  "handleNotification v s =
     (case decode v of
        Inl _ \<Rightarrow> s
      | Inr (DeviceNameEvent n) \<Rightarrow> s\<lparr>deviceNameText := n\<rparr>
      | Inr (FirmwareEvent f) \<Rightarrow> s\<lparr>firmwareText := f\<rparr>
      | Inr (BatteryEvent b) \<Rightarrow> s\<lparr>batteryText := b @ ''V''\<rparr>
      | Inr (ModeEvent m) \<Rightarrow> s\<lparr>modeText := m\<rparr>
      | Inr (UnrecognizedEvent _) \<Rightarrow> s)"

subsection \<open>Construction and the page's handlers\<close>

definition loadPresets :: "state \<Rightarrow> preset list" where
  "loadPresets s = (case storedPresets s of None \<Rightarrow> [] | Some ps \<Rightarrow> ps)"

definition initUI :: "state \<Rightarrow> state" where
  "initUI s = s\<lparr>sliderValue := currentIntensity s, intensityDisplay := toString (currentIntensity s)\<rparr>"

text \<open>The constructor (lines 3 to 22), run on the page as it is found.\<close>

definition constructor :: "state \<Rightarrow> state" where
  "constructor page =
     initUI (page\<lparr>device := None, server := None, service := None,
       writeCharacteristic := None, notifyCharacteristic := None,
       currentMode := ''D'', currentIntensity := 5,
       sessionActive := False, sessionStartTime := None, timerInterval := None,
       presets := loadPresets page\<rparr>)"

text \<open>The listeners of lines 33 to 38 and 48 to 54; the promises they start are dropped.\<close>

definition onModeClick :: "string \<Rightarrow> state \<Rightarrow> state" where
  "onModeClick m s = fst (setMode m s)"

definition onSliderInput :: "int \<Rightarrow> state \<Rightarrow> state" where
  "onSliderInput v s =
     (let s1 = s\<lparr>sliderValue := v, intensityDisplay := toString v\<rparr>
      in if sessionActive s1 then fst (setIntensity v s1) else s1)"

subsection \<open>Timers firing\<close>

text \<open>A timer callback runs its method and drops the promise.\<close>

fun fire :: "callback \<Rightarrow> state \<Rightarrow> state" where
  "fire UpdateTimer s = updateTimer s"
| "fire PollStatus s = fst (pollTick s)"
| "fire AutoStop s = fst (stopSession s)"

text \<open>
  A one-shot timer fires once, when it is due, and is then gone.  A repeating timer may
  fire at any time: its period is not enforced.
\<close>

definition fireTimer :: "nat \<Rightarrow> state \<Rightarrow> state" where
  "fireTimer i s =
     (case timers s i of
        None \<Rightarrow> s
      | Some (Every _ cb) \<Rightarrow> fire cb s
      | Some (After due cb) \<Rightarrow> if due \<le> now s then fire cb (clearInterval i s) else s)"

definition elapse :: "int \<Rightarrow> state \<Rightarrow> state" where
  "elapse d s = s\<lparr>now := now s + d\<rparr>"

subsection \<open>Reachable states\<close>

text \<open>
  The states the controller can be in between two of its operations: the constructor runs
  on some page, then methods, listeners and timers run one after the other while the
  clock advances and the link answers as it likes.
\<close>

inductive reachable :: "state \<Rightarrow> bool" where
  r_construct: "reachable (constructor page)"
| r_connect: "reachable s \<Longrightarrow> reachable (fst (connect failure s))"
| r_setMode: "reachable s \<Longrightarrow> reachable (fst (setMode m s))"
| r_setIntensity: "reachable s \<Longrightarrow> reachable (fst (setIntensity n s))"
| r_slider: "reachable s \<Longrightarrow> reachable (onSliderInput v s)"
| r_start: "reachable s \<Longrightarrow> reachable (fst (startSession s))"
| r_stop: "reachable s \<Longrightarrow> reachable (fst (stopSession s))"
| r_load: "reachable s \<Longrightarrow> reachable (fst (loadPreset p s))"
| r_notify: "reachable s \<Longrightarrow> reachable (handleNotification v s)"
| r_timer: "reachable s \<Longrightarrow> reachable (fireTimer i s)"
| r_elapse: "reachable s \<Longrightarrow> 0 \<le> d \<Longrightarrow> reachable (elapse d s)"
| r_link: "reachable s \<Longrightarrow> reachable (s\<lparr>faults := fs\<rparr>)"

subsection \<open>A page to run on\<close>

text \<open>An empty page at clock 1000 with nothing stored, and a link that accepts every write.\<close>

definition blankPage :: state where
  "blankPage =
     \<lparr>device = None, server = None, service = None,
      writeCharacteristic = None, notifyCharacteristic = None,
      currentMode = [], currentIntensity = 0,
      sessionActive = False, sessionStartTime = None, timerInterval = None,
      presets = [],
      deviceNameText = [], firmwareText = [], batteryText = [], modeText = [],
      timerText = [], sliderValue = 0, intensityDisplay = [],
      startBtnDisabled = False, connectBtnDisabled = False,
      storedPresets = None, now = 1000, alerts = [], timers = Map.empty, lastTimerId = 0,
      listeners = 0, writeCalls = [], faults = []\<rparr>"

text \<open>The controller as constructed, and after a successful \<^verbatim>\<open>connect\<close>.\<close>

definition fresh :: state where
  "fresh = constructor blankPage"

definition linked :: state where
  "linked = fst (connect None fresh)"

text \<open>A session running on the connected controller, five seconds after it was started.\<close>

definition running :: state where
  "running = elapse 5000 (fst (startSession linked))"

text \<open>The preset of the specification's example, and one with intensity zero.\<close>

definition calm :: preset where
  "calm = \<lparr>name = ''Calm'', mode = ''A'', intensity = 6, duration = 10\<rparr>"


text \<open>
  The preset \<open>calm\<close> loaded on the connected controller, the session stopped by hand
  at once, and ten minutes gone by: the one-shot timer of the preset is due.
\<close>

definition stoppedByHand :: state where
  "stoppedByHand = elapse 600000 (fst (stopSession (fst (loadPreset calm linked))))"


text \<open>The connected controller, facing a link that will reject the next write.\<close>

definition jammed :: state where
  "jammed = linked\<lparr>faults := [True]\<rparr>"

text \<open>The controller as constructed, facing a link that would reject the next two writes.\<close>

definition deaf :: state where
  "deaf = fresh\<lparr>faults := [True, True]\<rparr>"

subsection \<open>The session invariant\<close>

text \<open>While a session is active, the time of its start is on record.\<close>

definition startRecorded :: "state \<Rightarrow> bool" where
  "startRecorded s = (sessionActive s \<longrightarrow> sessionStartTime s \<noteq> None)"

section \<open>Properties of the codec\<close>

lemma split_from_nonempty: "split_from sep cur s \<noteq> []"
  by (induction sep cur s rule: split_from.induct) auto

lemma split_from_Cons: "\<exists>b r. split_from sep cur s = b # r"
  using split_from_nonempty [of sep cur s] by (cases "split_from sep cur s") auto

text \<open>Where the separator occurs, the split has a piece at index 1.\<close>

lemma split_from_includes:
  "sep \<noteq> [] \<Longrightarrow> js_includes s sep \<Longrightarrow> \<exists>a b r. split_from sep cur s = a # b # r"
proof (induction sep cur s rule: split_from.induct)
  case (1 sep cur)
  then show ?case by simp
next
  case (2 sep cur c cs)
  show ?case
  proof (cases "js_startsWith (c # cs) sep")
    case True
    obtain b r where "split_from sep [] (drop (length sep) (c # cs)) = b # r"
      using split_from_Cons by blast
    with True 2(3) show ?thesis by simp
  next
    case False
    with 2(4) have "js_includes cs sep" by simp
    with False 2(2,3) show ?thesis by simp
  qed
qed

lemma index1_split:
  "sep \<noteq> [] \<Longrightarrow> js_includes s sep \<Longrightarrow> \<exists>seg. index1 (js_split s sep) = Inr seg"
  using split_from_includes [of sep s "[]"] by (auto simp: js_split_def index1_def)

lemma split_from_absent:
  "\<not> js_includes s sep \<Longrightarrow> split_from sep cur s = [rev cur @ s]"
  by (induction sep cur s rule: split_from.induct) auto

lemma split_from_prefix:
  "sep \<noteq> [] \<Longrightarrow> \<not> js_includes m sep \<Longrightarrow> split_from sep [] (sep @ m) = [[], m]"
  by (cases sep) (simp_all add: js_startsWith_def split_from_absent)

text \<open>The handler never reads a missing piece: decoding always yields an event.\<close>

lemma decode_total: "\<exists>e. decode v = Inr e"
  using index1_split [of "''Batt:''" v] index1_split [of "''mode:''" v]
  by (auto simp: decode_def)

section \<open>Properties of the controller\<close>

text \<open>Within the 32-bit range a delay is taken as it is.\<close>

lemma timeoutDelay_id: "0 \<le> ms \<Longrightarrow> ms \<le> 2147483647 \<Longrightarrow> timeoutDelay ms = ms"
  by (simp add: timeoutDelay_def toInt32_def)

lemma timeoutDelay_nonneg: "0 \<le> timeoutDelay ms"
  by (simp add: timeoutDelay_def)

lemma timeoutDelay_used: "timeoutDelay 100 = 100" "timeoutDelay 1000 = 1000"
  "timeoutDelay 3000 = 3000"
  by (simp_all add: timeoutDelay_id)

lemmas step_defs = await_def delay_def writeValue_def sendCommand_def setMode_def
  setIntensity_def alert_def setInterval_def setTimeout_def clearInterval_def
  timeoutDelay_used

lemmas step_splits = option.splits list.splits prod.splits outcome.splits

subsection \<open>The sample states, written out\<close>

lemma toString_5: "toString 5 = ''5''"
  by (simp add: toString_def digitsOf.simps)

lemma fresh_simp:
  "fresh = blankPage\<lparr>currentMode := ''D'', currentIntensity := 5, sliderValue := 5,
     intensityDisplay := ''5''\<rparr>"
  by (simp add: fresh_def constructor_def initUI_def loadPresets_def blankPage_def toString_5)

lemma linked_simp:
  "linked = fresh\<lparr>device := Some BluetoothDevice, server := Some GattServer,
     service := Some GattService,
     writeCharacteristic := Some (GattCharacteristic WRITE_UUID),
     notifyCharacteristic := Some (GattCharacteristic NOTIFY_UUID),
     connectBtnDisabled := True, now := 1200,
     timers := [1 \<mapsto> Every 3000 PollStatus], lastTimerId := 1, listeners := 1,
     writeCalls := [''i'' @ [CHR 0x0A], ''v'' @ [CHR 0x0A], ''Q'' @ [CHR 0x0A]]\<rparr>"
  by (simp add: linked_def connect_def onConnected_def startStatusPolling_def step_defs
      fresh_simp blankPage_def Let_def)

lemma running_simp:
  "running = linked\<lparr>sessionActive := True, sessionStartTime := Some 1200,
     currentMode := ''D'', currentIntensity := 5,
     now := 6300,
     timers := [Suc 0 \<mapsto> Every 3000 PollStatus, Suc (Suc 0) \<mapsto> Every 1000 UpdateTimer],
     lastTimerId := 2, timerInterval := Some 2, startBtnDisabled := True,
     writeCalls := [''i'' @ [CHR 0x0A], ''v'' @ [CHR 0x0A], ''Q'' @ [CHR 0x0A],
                    ''D'' @ [CHR 0x0A], ''5'' @ [CHR 0x0A]]\<rparr>"
  by (simp add: running_def elapse_def startSession_def step_defs Let_def linked_simp fresh_simp
      blankPage_def toString_5)

subsection \<open>What starting and stopping do to single fields\<close>

lemma start_active:
  "sessionActive (fst (startSession s)) = (currentMode s \<noteq> [] \<or> sessionActive s)"
  by (simp add: startSession_def step_defs Let_def split: step_splits)

lemma start_time:
  "sessionStartTime (fst (startSession s)) =
     (if currentMode s = [] then sessionStartTime s else Some (now s))"
  by (simp add: startSession_def step_defs Let_def split: step_splits)

lemma start_link:
  "writeCharacteristic (fst (startSession s)) = writeCharacteristic s"
  by (simp add: startSession_def step_defs Let_def split: step_splits)

lemma start_handles:
  "linkHandles (fst (startSession s)) = linkHandles s"
  by (simp add: startSession_def linkHandles_def step_defs Let_def split: step_splits)

lemma stop_handles:
  "linkHandles (fst (stopSession s)) = linkHandles s"
  by (simp add: stopSession_def linkHandles_def step_defs Let_def split: step_splits)

lemma start_alerts:
  "currentMode s \<noteq> [] \<Longrightarrow> alerts (fst (startSession s)) = alerts s"
  by (simp add: startSession_def step_defs Let_def split: step_splits)

lemma start_first_write:
  "currentMode s \<noteq> [] \<Longrightarrow> connected s \<Longrightarrow>
   take (Suc (length (writeCalls s))) (writeCalls (fst (startSession s))) =
     writeCalls s @ [currentMode s @ [CHR 0x0A]]"
  by (auto simp: startSession_def connected_def step_defs Let_def split: step_splits)

lemma stop_time:
  "sessionStartTime (fst (stopSession s)) = sessionStartTime s"
  by (simp add: stopSession_def step_defs Let_def split: step_splits)

lemma stop_active:
  "\<not> sessionActive (fst (stopSession s))"
  by (simp add: stopSession_def step_defs Let_def split: step_splits)

lemma stop_link:
  "writeCharacteristic (fst (stopSession s)) = writeCharacteristic s"
  by (simp add: stopSession_def step_defs Let_def split: step_splits)

lemma stop_status:
  "deviceStatus (fst (stopSession s)) = deviceStatus s"
  by (simp add: stopSession_def deviceStatus_def step_defs Let_def split: step_splits)

lemma stop_alerts:
  "alerts (fst (stopSession s)) = alerts s"
  by (simp add: stopSession_def step_defs Let_def split: step_splits)

lemma stop_outcome:
  "snd (stopSession s) = snd (sendCommand ''-'' s)"
  by (simp add: stopSession_def step_defs Let_def split: step_splits)

lemma sendCommand_session:
  "sessionActive (fst (sendCommand c s)) = sessionActive s"
  "sessionStartTime (fst (sendCommand c s)) = sessionStartTime s"
  by (simp_all add: step_defs split: step_splits)

subsection \<open>Every operation keeps the start time of an active session on record\<close>

lemma recorded_connect: "startRecorded s \<Longrightarrow> startRecorded (fst (connect f s))"
  by (simp add: startRecorded_def connect_def onConnected_def startStatusPolling_def step_defs
      Let_def split: step_splits)

lemma recorded_setMode: "startRecorded s \<Longrightarrow> startRecorded (fst (setMode m s))"
  by (simp add: startRecorded_def step_defs split: step_splits)

lemma recorded_setIntensity: "startRecorded s \<Longrightarrow> startRecorded (fst (setIntensity n s))"
  by (simp add: startRecorded_def step_defs split: step_splits)

lemma recorded_slider: "startRecorded s \<Longrightarrow> startRecorded (onSliderInput v s)"
  by (simp add: startRecorded_def onSliderInput_def step_defs Let_def split: step_splits)

lemma recorded_start: "startRecorded s \<Longrightarrow> startRecorded (fst (startSession s))"
  by (simp add: startRecorded_def start_active start_time)

lemma recorded_stop: "startRecorded (fst (stopSession s))"
  by (simp add: startRecorded_def stop_active)

lemma recorded_load: "startRecorded s \<Longrightarrow> startRecorded (fst (loadPreset p s))"
  by (simp add: startRecorded_def loadPreset_def startSession_def step_defs Let_def
      split: step_splits)

lemma recorded_notify: "startRecorded s \<Longrightarrow> startRecorded (handleNotification v s)"
  by (simp add: startRecorded_def handleNotification_def split: sum.splits event.splits)

lemma recorded_fire: "startRecorded s \<Longrightarrow> startRecorded (fire cb s)"
proof (cases cb)
  case UpdateTimer
  assume "startRecorded s"
  with UpdateTimer show ?thesis
    by (auto simp: startRecorded_def updateTimer_def Let_def split: option.splits)
next
  case PollStatus
  assume "startRecorded s"
  with PollStatus show ?thesis
    by (auto simp: startRecorded_def pollTick_def sendCommand_session)
next
  case AutoStop
  then show ?thesis by (simp add: recorded_stop)
qed

lemma recorded_timer: "startRecorded s \<Longrightarrow> startRecorded (fireTimer i s)"
proof -
  assume a: "startRecorded s"
  then have "startRecorded (clearInterval i s)"
    by (simp add: startRecorded_def clearInterval_def)
  with a show ?thesis
    by (simp add: fireTimer_def recorded_fire split: option.splits timer.splits)
qed

lemma reachable_recorded: "reachable s \<Longrightarrow> startRecorded s"
proof (induction rule: reachable.induct)
  case (r_construct page)
  show ?case by (simp add: startRecorded_def constructor_def initUI_def)
next
  case (r_elapse s d)
  then show ?case by (simp add: startRecorded_def elapse_def)
next
  case (r_link s fs)
  then show ?case by (simp add: startRecorded_def)
qed (simp_all add: recorded_connect recorded_setMode recorded_setIntensity recorded_slider
      recorded_start recorded_stop recorded_load recorded_notify recorded_timer)

section \<open>The claims\<close>

subsection \<open>C1: a session started and stopped at once\<close>

text \<open>
  C1, as the code has it.  In every state, \<^verbatim>\<open>startSession\<close> followed at once by
  \<^verbatim>\<open>stopSession\<close> leaves the handles of the link, and with them the connection, as
  they were, and leaves no session active.  The start time is not cleared: it is the time of
  the call of \<^verbatim>\<open>startSession\<close> (or, when the mode is empty and nothing was started, what
  it was before), since \<^verbatim>\<open>stopSession\<close> never assigns that field.
\<close>

theorem start_then_stop:
  "linkHandles (fst (stopSession (fst (startSession s)))) = linkHandles s \<and>
   connected (fst (stopSession (fst (startSession s)))) = connected s \<and>
   \<not> sessionActive (fst (stopSession (fst (startSession s)))) \<and>
   sessionStartTime (fst (stopSession (fst (startSession s)))) =
     (if currentMode s = [] then sessionStartTime s else Some (now s))"
  by (simp add: connected_def stop_link start_link stop_handles start_handles stop_active
      stop_time start_time)

text \<open>
  C1 as stated fails: on the connected controller, which has no start time on record,
  starting and stopping a session leaves the start time 1200 behind.
\<close>

theorem start_then_stop_keeps_timestamp:
  "connected linked \<and> sessionStartTime linked = None \<and>
   \<not> sessionActive (fst (stopSession (fst (startSession linked)))) \<and>
   sessionStartTime (fst (stopSession (fst (startSession linked)))) = Some 1200"
  by (simp add: linked_simp fresh_simp blankPage_def connected_def stop_active stop_time
      start_time)

subsection \<open>C2: start time and active flag\<close>

text \<open>
  C2, as the code has it.  In every reachable state, whatever operations led to it
  (construction, \<^verbatim>\<open>startSession\<close>, \<^verbatim>\<open>stopSession\<close>, \<^verbatim>\<open>loadPreset\<close> and all the
  others), an active session has its start time on record.  The converse does not hold,
  because \<^verbatim>\<open>stopSession\<close> keeps the start time.
\<close>

theorem active_has_start_time:
  "reachable s \<Longrightarrow> sessionActive s \<Longrightarrow> sessionStartTime s \<noteq> None"
  using reachable_recorded [of s] by (simp add: startRecorded_def)

text \<open>C2, an instance: the controller as constructed, with a session started.\<close>

theorem active_has_start_time_witness:
  "reachable (fst (startSession fresh)) \<and> sessionActive (fst (startSession fresh)) \<and>
   sessionStartTime (fst (startSession fresh)) \<noteq> None"
proof -
  have r: "reachable (fst (startSession fresh))"
    unfolding fresh_def by (rule r_start, rule r_construct)
  have a: "sessionActive (fst (startSession fresh))"
    by (simp add: start_active fresh_simp)
  from active_has_start_time [OF r a] r a show ?thesis by simp
qed

text \<open>
  C2 as stated fails: after construction, \<^verbatim>\<open>startSession\<close> and \<^verbatim>\<open>stopSession\<close> the
  controller is in a reachable state with no active session and the start time 1000.
\<close>

theorem stopped_keeps_start_time:
  "reachable (fst (stopSession (fst (startSession fresh)))) \<and>
   \<not> sessionActive (fst (stopSession (fst (startSession fresh)))) \<and>
   sessionStartTime (fst (stopSession (fst (startSession fresh)))) = Some 1000"
proof -
  have "reachable (fst (stopSession (fst (startSession fresh))))"
    unfolding fresh_def by (rule r_stop, rule r_start, rule r_construct)
  then show ?thesis
    by (simp add: stop_active stop_time start_time fresh_simp blankPage_def)
qed

subsection \<open>C3: starting a session twice\<close>

lemma start_writes_unconnected:
  "currentMode s \<noteq> [] \<Longrightarrow> \<not> connected s \<Longrightarrow>
   writeCalls (fst (startSession s)) = writeCalls s"
  by (auto simp: startSession_def connected_def step_defs Let_def split: step_splits)

lemma start_writes_rejected:
  "currentMode s \<noteq> [] \<Longrightarrow> connected s \<Longrightarrow> \<not> linkAccepts 1 s \<Longrightarrow>
   writeCalls (fst (startSession s)) = writeCalls s @ [currentMode s @ [CHR 0x0A]]"
  by (auto simp: startSession_def connected_def linkAccepts_def step_defs Let_def
      split: step_splits)

lemma start_writes_accepted:
  "currentMode s \<noteq> [] \<Longrightarrow> connected s \<Longrightarrow> linkAccepts 1 s \<Longrightarrow>
   writeCalls (fst (startSession s)) =
     writeCalls s @ [currentMode s @ [CHR 0x0A]] @
       (if 0 < sliderValue s then [toString (sliderValue s) @ [CHR 0x0A]] else [])"
  by (auto simp: startSession_def connected_def linkAccepts_def step_defs Let_def
      split: step_splits)

text \<open>
  C3, as the code has it.  \<^verbatim>\<open>startSession\<close> does not look at the active flag.  Called
  while a session is active (and the mode is not empty) it reports no error, keeps the
  session active and overwrites the start time with the current time.  Without a link it
  writes nothing.  With a link it writes the mode command again; when the link rejects
  that write nothing more is written; when the link accepts it, the intensity command
  follows if the slider value is above zero (its text is the decimal text of the slider
  value, a safe integer, and a newline), and nothing follows if it is not.
\<close>

theorem restart_while_active:
  "sessionActive s \<Longrightarrow> currentMode s \<noteq> [] \<Longrightarrow>
   sessionActive (fst (startSession s)) \<and>
   sessionStartTime (fst (startSession s)) = Some (now s) \<and>
   alerts (fst (startSession s)) = alerts s \<and>
   (\<not> connected s \<longrightarrow> writeCalls (fst (startSession s)) = writeCalls s) \<and>
   (connected s \<longrightarrow>
      take (Suc (length (writeCalls s))) (writeCalls (fst (startSession s))) =
        writeCalls s @ [currentMode s @ [CHR 0x0A]]) \<and>
   (connected s \<and> \<not> linkAccepts 1 s \<longrightarrow>
      writeCalls (fst (startSession s)) = writeCalls s @ [currentMode s @ [CHR 0x0A]]) \<and>
   (connected s \<and> linkAccepts 1 s \<and> sliderValue s \<le> 0 \<longrightarrow>
      writeCalls (fst (startSession s)) = writeCalls s @ [currentMode s @ [CHR 0x0A]]) \<and>
   (connected s \<and> linkAccepts 1 s \<and> 0 < sliderValue s \<and> sliderValue s \<le> MAX_SAFE_INTEGER \<longrightarrow>
      writeCalls (fst (startSession s)) =
        writeCalls s @ [currentMode s @ [CHR 0x0A], toString (sliderValue s) @ [CHR 0x0A]])"
  by (simp add: start_active start_time start_alerts start_first_write start_writes_unconnected
      start_writes_rejected start_writes_accepted)

text \<open>
  C3, an instance: the running session, started again on a link that accepts.  The mode
  command and the intensity command are written a second time.
\<close>

theorem restart_while_active_witness:
  "sessionActive running \<and> currentMode running \<noteq> [] \<and> connected running \<and>
   linkAccepts 1 running \<and> 0 < sliderValue running \<and> sliderValue running \<le> MAX_SAFE_INTEGER \<and>
   sessionStartTime (fst (startSession running)) = Some 6300 \<and>
   alerts (fst (startSession running)) = [] \<and>
   writeCalls (fst (startSession running)) =
     [''i'' @ [CHR 0x0A], ''v'' @ [CHR 0x0A], ''Q'' @ [CHR 0x0A],
      ''D'' @ [CHR 0x0A], ''5'' @ [CHR 0x0A], ''D'' @ [CHR 0x0A], ''5'' @ [CHR 0x0A]]"
proof -
  have a: "sessionActive running" and m: "currentMode running \<noteq> []" and c: "connected running"
    and l: "linkAccepts 1 running" and v: "0 < sliderValue running"
    and b: "sliderValue running \<le> MAX_SAFE_INTEGER"
    by (simp_all add: running_simp linked_simp fresh_simp blankPage_def connected_def
        linkAccepts_def MAX_SAFE_INTEGER_def)
  have f: "now running = 6300" "alerts running = []" "currentMode running = ''D''"
    "sliderValue running = 5"
    "writeCalls running = [''i'' @ [CHR 0x0A], ''v'' @ [CHR 0x0A], ''Q'' @ [CHR 0x0A],
      ''D'' @ [CHR 0x0A], ''5'' @ [CHR 0x0A]]"
    by (simp_all add: running_simp linked_simp fresh_simp blankPage_def)
  from restart_while_active [OF a m] a c l v b show ?thesis
    by (simp add: f toString_5)
qed

text \<open>
  C3 as stated fails: the second \<^verbatim>\<open>startSession\<close> on the running session ends normally,
  reports nothing, moves the start time from 1200 to 6300 and sends two more commands.
\<close>

theorem restart_not_refused:
  "sessionActive running \<and> sessionStartTime running = Some 1200 \<and>
   snd (startSession running) = Resolved \<and>
   sessionStartTime (fst (startSession running)) = Some 6300 \<and>
   alerts (fst (startSession running)) = [] \<and>
   length (writeCalls running) = 5 \<and>
   length (writeCalls (fst (startSession running))) = 7"
  by (simp add: running_simp linked_simp fresh_simp blankPage_def startSession_def step_defs
      Let_def toString_5)

subsection \<open>C4: setting the mode\<close>

text \<open>
  C4, as the code has it.  \<^verbatim>\<open>setMode\<close> stores the mode in every state and reports no
  error.  When connected it hands the mode, followed by a newline, to the link at once;
  when not connected it writes nothing and ends normally.
\<close>

theorem setMode_effect:
  "currentMode (fst (setMode m s)) = m \<and>
   alerts (fst (setMode m s)) = alerts s \<and>
   (if connected s
    then writeCalls (fst (setMode m s)) = writeCalls s @ [m @ [CHR 0x0A]]
    else writeCalls (fst (setMode m s)) = writeCalls s \<and> snd (setMode m s) = Resolved)"
  by (simp add: connected_def step_defs split: step_splits)

text \<open>
  C4 as stated fails: on the controller as constructed, which is not connected,
  \<^verbatim>\<open>setMode\<close> changes the mode from D to A, ends normally and reports no error.
\<close>

theorem setMode_unconnected_silent:
  "\<not> connected fresh \<and> currentMode fresh = ''D'' \<and>
   setMode ''A'' fresh = (fresh\<lparr>currentMode := ''A''\<rparr>, Resolved) \<and>
   alerts (fst (setMode ''A'' fresh)) = []"
  by (simp add: fresh_simp blankPage_def connected_def step_defs)

subsection \<open>C5: a failed connection attempt\<close>

text \<open>
  C5, as the code has it.  Started on a controller that is not connected, a \<^verbatim>\<open>connect\<close>
  that fails at any step ends normally with exactly one more alert, which carries the
  message of the failure; mode and intensity are as before, nothing is written to the link
  and no timer is started.  When the failing step is discovery, the GATT connection, the
  service or the write characteristic, the controller is still not connected.
\<close>

theorem connect_failure:
  "\<not> connected s \<Longrightarrow>
   snd (connect (Some (st, msg)) s) = Resolved \<and>
   alerts (fst (connect (Some (st, msg)) s)) = alerts s @ [''Failed to connect: '' @ msg] \<and>
   currentMode (fst (connect (Some (st, msg)) s)) = currentMode s \<and>
   currentIntensity (fst (connect (Some (st, msg)) s)) = currentIntensity s \<and>
   writeCalls (fst (connect (Some (st, msg)) s)) = writeCalls s \<and>
   timers (fst (connect (Some (st, msg)) s)) = timers s \<and>
   (st \<in> {Discovery, GattConnect, ServiceResolution, WriteCharResolution} \<longrightarrow>
      \<not> connected (fst (connect (Some (st, msg)) s)))"
  by (cases st) (simp_all add: connect_def connected_def alert_def Let_def)

text \<open>C5, an instance: the GATT connection fails on the controller as constructed.\<close>

theorem connect_failure_witness:
  "\<not> connected fresh \<and>
   alerts (fst (connect (Some (GattConnect, ''GATT Error'')) fresh)) =
     [''Failed to connect: GATT Error''] \<and>
   currentMode (fst (connect (Some (GattConnect, ''GATT Error'')) fresh)) = ''D'' \<and>
   currentIntensity (fst (connect (Some (GattConnect, ''GATT Error'')) fresh)) = 5 \<and>
   \<not> connected (fst (connect (Some (GattConnect, ''GATT Error'')) fresh))"
proof -
  have n: "\<not> connected fresh"
    by (simp add: connected_def fresh_simp blankPage_def)
  from connect_failure [OF n, of GattConnect "''GATT Error''"] n show ?thesis
    by (simp add: fresh_simp blankPage_def)
qed

text \<open>
  C5 as stated fails: when the subscription to notifications is rejected, the write
  characteristic obtained two steps earlier stays, so the controller that was not
  connected now is, and the next \<^verbatim>\<open>setMode\<close> writes to the link.
\<close>

theorem connect_failure_keeps_write_characteristic:
  "\<not> connected fresh \<and>
   connected (fst (connect (Some (NotificationSubscription, ''GATT Error'')) fresh)) \<and>
   writeCalls (fst (connect (Some (NotificationSubscription, ''GATT Error'')) fresh)) = [] \<and>
   writeCalls
     (fst (setMode ''A'' (fst (connect (Some (NotificationSubscription, ''GATT Error'')) fresh))))
     = [''A'' @ [CHR 0x0A]]"
  by (simp add: connect_def connected_def Let_def fresh_simp blankPage_def step_defs)

subsection \<open>C6: loading a preset\<close>














lemma reachable_linked: "reachable linked"
  unfolding linked_def fresh_def by (rule r_connect, rule r_construct)




subsection \<open>C7: stopping when no session is active\<close>

lemma stop_outcome_exact:
  "snd (stopSession s) =
     (if connected s \<and> \<not> linkAccepts 1 s then Rejected WriteError else Resolved)"
  by (auto simp: stopSession_def connected_def linkAccepts_def step_defs Let_def
      split: step_splits)

lemma stop_keeps_timer:
  "timerInterval s \<noteq> Some i \<Longrightarrow> timers (fst (stopSession s)) i = timers s i"
  by (auto simp: stopSession_def step_defs Let_def split: step_splits)

lemma fireTimer_AutoStop_status:
  "timers s i = Some (After due AutoStop) \<Longrightarrow> deviceStatus (fireTimer i s) = deviceStatus s"
  by (simp add: fireTimer_def stop_status) (simp add: clearInterval_def deviceStatus_def)

lemma fireTimer_AutoStop_active:
  "timers s i = Some (After due AutoStop) \<Longrightarrow> \<not> sessionActive s \<Longrightarrow>
   \<not> sessionActive (fireTimer i s)"
  by (simp add: fireTimer_def stop_active)

lemma stoppedByHand_facts:
  "\<not> sessionActive stoppedByHand" "connected stoppedByHand" "faults stoppedByHand = []"
  "timers stoppedByHand 3 = Some (After 601300 AutoStop)" "now stoppedByHand = 601300"
  "alerts stoppedByHand = []"
  by (simp_all add: stoppedByHand_def elapse_def calm_def linked_simp fresh_simp blankPage_def
      connected_def loadPreset_def startSession_def stopSession_def step_defs Let_def
      timeoutDelay_id)

text \<open>
  C7, as the code has it.  With no session active, \<^verbatim>\<open>stopSession\<close> changes none of the
  device-reported fields, reports no error and leaves no session active.  Its promise is
  rejected, with the error of the write, exactly when there is a link and the link rejects
  the end-of-session command; without a link, or when the link accepts, it ends normally.
  It cancels no timer other than the ticker, so a one-shot timer of a preset stays
  registered; and when such a timer fires with no session active, the device-reported
  fields are unchanged and still no session is active.
\<close>

theorem stop_when_inactive:
  "\<not> sessionActive s \<Longrightarrow>
   deviceStatus (fst (stopSession s)) = deviceStatus s \<and>
   \<not> sessionActive (fst (stopSession s)) \<and>
   alerts (fst (stopSession s)) = alerts s \<and>
   snd (stopSession s) = snd (sendCommand ''-'' s) \<and>
   snd (stopSession s) =
     (if connected s \<and> \<not> linkAccepts 1 s then Rejected WriteError else Resolved) \<and>
   (timerInterval s \<noteq> Some i \<longrightarrow> timers (fst (stopSession s)) i = timers s i) \<and>
   (timers s i = Some (After due AutoStop) \<longrightarrow>
      deviceStatus (fireTimer i s) = deviceStatus s \<and> \<not> sessionActive (fireTimer i s))"
  using stop_outcome_exact [of s]
  by (simp add: stop_status stop_active stop_alerts stop_outcome stop_keeps_timer
      fireTimer_AutoStop_status fireTimer_AutoStop_active)

text \<open>
  C7, an instance: a preset was loaded and the session stopped by hand; ten minutes
  later the timer of the preset is still registered, is due, and fires harmlessly.
\<close>

theorem stop_when_inactive_witness:
  "\<not> sessionActive stoppedByHand \<and>
   timers stoppedByHand 3 = Some (After 601300 AutoStop) \<and> now stoppedByHand = 601300 \<and>
   deviceStatus (fireTimer 3 stoppedByHand) = deviceStatus stoppedByHand \<and>
   \<not> sessionActive (fireTimer 3 stoppedByHand) \<and>
   deviceStatus (fst (stopSession stoppedByHand)) = deviceStatus stoppedByHand \<and>
   alerts (fst (stopSession stoppedByHand)) = [] \<and>
   snd (stopSession stoppedByHand) = Resolved"
proof -
  have n: "\<not> sessionActive stoppedByHand" by (simp add: stoppedByHand_facts)
  from stop_when_inactive [OF n, of 3 601300] show ?thesis
    by (auto simp: stoppedByHand_facts linkAccepts_def)
qed

text \<open>
  C7 as stated fails: the connected controller with no session active is a reachable
  state, and when the link rejects the end-of-session command there, the promise of
  \<^verbatim>\<open>stopSession\<close> is rejected: lines 193 and 127 let the error of the write through.
\<close>

theorem stop_rejected_by_link:
  "reachable jammed \<and> \<not> sessionActive jammed \<and> connected jammed \<and> faults jammed = [True] \<and>
   snd (stopSession jammed) = Rejected WriteError"
proof -
  have "reachable jammed"
    unfolding jammed_def by (rule r_link, rule reachable_linked)
  then show ?thesis
    by (simp add: jammed_def linked_simp fresh_simp blankPage_def connected_def
        stopSession_def step_defs Let_def)
qed

subsection \<open>C8: a line with both a battery and a mode part\<close>

lemma firmware_not_name:
  "js_startsWith v ''fw:'' \<Longrightarrow> \<not> js_startsWith v ''Pulsetto_''"
  by (cases v) (auto simp: js_startsWith_def)

text \<open>
  C8, as the code has it.  A line that contains both \<^verbatim>\<open>Batt:\<close> and \<^verbatim>\<open>mode:\<close> is never
  classified as a mode event.  When it starts with \<^verbatim>\<open>Pulsetto_\<close> it is a device name
  event, and when it starts with \<^verbatim>\<open>fw:\<close> it is a firmware event, each with the trimmed
  line as its value: these two tests come first.  In all other cases it is a battery
  event, whose value is the trimmed piece after the first \<^verbatim>\<open>Batt:\<close>.
\<close>

theorem battery_before_mode:
  "js_includes v ''Batt:'' \<Longrightarrow> js_includes v ''mode:'' \<Longrightarrow>
   (\<forall>m. decode v \<noteq> Inr (ModeEvent m)) \<and>
   (js_startsWith v ''Pulsetto_'' \<longrightarrow> decode v = Inr (DeviceNameEvent (js_trim v))) \<and>
   (js_startsWith v ''fw:'' \<longrightarrow> decode v = Inr (FirmwareEvent (js_trim v))) \<and>
   (\<not> js_startsWith v ''Pulsetto_'' \<and> \<not> js_startsWith v ''fw:'' \<longrightarrow>
      (\<exists>seg. index1 (js_split v ''Batt:'') = Inr seg \<and>
             decode v = Inr (BatteryEvent (js_trim seg))))"
  using index1_split [of "''Batt:''" v] firmware_not_name [of v]
  by (auto simp: decode_def)

text \<open>
  C8, three instances: a status line with the battery part first, and lines with both
  parts behind a device name and behind a firmware version.
\<close>

theorem battery_before_mode_witness:
  "js_includes ''Batt: 3.91 mode:D'' ''Batt:'' \<and> js_includes ''Batt: 3.91 mode:D'' ''mode:'' \<and>
   decode ''Batt: 3.91 mode:D'' = Inr (BatteryEvent ''3.91 mode:D'') \<and>
   js_includes ''Pulsetto_Batt:mode:'' ''Batt:'' \<and> js_includes ''Pulsetto_Batt:mode:'' ''mode:'' \<and>
   decode ''Pulsetto_Batt:mode:'' = Inr (DeviceNameEvent ''Pulsetto_Batt:mode:'') \<and>
   js_includes ''fw:Batt:mode: '' ''Batt:'' \<and> js_includes ''fw:Batt:mode: '' ''mode:'' \<and>
   decode ''fw:Batt:mode: '' = Inr (FirmwareEvent ''fw:Batt:mode:'')"
proof -
  have a: "js_includes ''Batt: 3.91 mode:D'' ''Batt:''"
    and b: "js_includes ''Batt: 3.91 mode:D'' ''mode:''"
    by (simp_all add: js_startsWith_def)
  have c: "index1 (js_split ''Batt: 3.91 mode:D'' ''Batt:'') = Inr '' 3.91 mode:D''"
    by (simp add: js_split_def index1_def js_startsWith_def)
  have d: "js_trim '' 3.91 mode:D'' = ''3.91 mode:D''"
    by (simp add: js_trim_def isWhiteSpace_def)
  have 1: "decode ''Batt: 3.91 mode:D'' = Inr (BatteryEvent ''3.91 mode:D'')"
    using battery_before_mode [OF a b] by (simp add: js_startsWith_def c d)
  have a2: "js_includes ''Pulsetto_Batt:mode:'' ''Batt:''"
    and b2: "js_includes ''Pulsetto_Batt:mode:'' ''mode:''"
    by (simp_all add: js_startsWith_def)
  have 2: "decode ''Pulsetto_Batt:mode:'' = Inr (DeviceNameEvent ''Pulsetto_Batt:mode:'')"
    using battery_before_mode [OF a2 b2]
    by (simp add: js_startsWith_def js_trim_def isWhiteSpace_def)
  have a3: "js_includes ''fw:Batt:mode: '' ''Batt:''"
    and b3: "js_includes ''fw:Batt:mode: '' ''mode:''"
    by (simp_all add: js_startsWith_def)
  have 3: "decode ''fw:Batt:mode: '' = Inr (FirmwareEvent ''fw:Batt:mode:'')"
    using battery_before_mode [OF a3 b3]
    by (simp add: js_startsWith_def js_trim_def isWhiteSpace_def)
  from a b 1 a2 b2 2 a3 b3 3 show ?thesis by simp
qed

text \<open>
  C8 as stated fails: a line that starts with \<^verbatim>\<open>fw:\<close> and contains both parts is a
  firmware event, not a battery event.
\<close>

theorem firmware_line_with_both:
  "js_includes ''fw:1.2 Batt:3.9 mode:D'' ''Batt:'' \<and>
   js_includes ''fw:1.2 Batt:3.9 mode:D'' ''mode:'' \<and>
   decode ''fw:1.2 Batt:3.9 mode:D'' = Inr (FirmwareEvent ''fw:1.2 Batt:3.9 mode:D'')"
  by (simp add: decode_def js_startsWith_def js_trim_def isWhiteSpace_def)

subsection \<open>C9: the three sample lines and the mode labels\<close>

lemma includes_append_mode:
  "\<not> js_includes m ''Batt:'' \<Longrightarrow> \<not> js_includes (''mode:'' @ m) ''Batt:''"
  by (simp add: js_startsWith_def)

text \<open>
  C9.  The line \<^verbatim>\<open>Pulsetto_A1B2\<close> decodes to a device name event with that value,
  \<^verbatim>\<open>mode:D\<close> to a mode event labelled BOTH, \<^verbatim>\<open>Batt: 3.91\<close> to a battery event with the
  value 3.91.  The modes 0, A and C are labelled OFF, LEFT and RIGHT, and every other mode
  text (one that holds neither \<^verbatim>\<open>Batt:\<close> nor a further \<^verbatim>\<open>mode:\<close>) is passed through
  as it is, trimmed.
\<close>

theorem decode_examples:
  "decode ''Pulsetto_A1B2'' = Inr (DeviceNameEvent ''Pulsetto_A1B2'') \<and>
   decode ''mode:D'' = Inr (ModeEvent ''BOTH'') \<and>
   decode ''mode:0'' = Inr (ModeEvent ''OFF'') \<and>
   decode ''mode:A'' = Inr (ModeEvent ''LEFT'') \<and>
   decode ''mode:C'' = Inr (ModeEvent ''RIGHT'') \<and>
   decode ''Batt: 3.91'' = Inr (BatteryEvent ''3.91'') \<and>
   (\<not> js_includes m ''Batt:'' \<and> \<not> js_includes m ''mode:'' \<and>
    js_trim m \<notin> {''0'', ''A'', ''C'', ''D''} \<longrightarrow>
      decode (''mode:'' @ m) = Inr (ModeEvent (js_trim m)))"
proof -
  have ex: "decode ''Pulsetto_A1B2'' = Inr (DeviceNameEvent ''Pulsetto_A1B2'')"
    "decode ''mode:D'' = Inr (ModeEvent ''BOTH'')"
    "decode ''mode:0'' = Inr (ModeEvent ''OFF'')"
    "decode ''mode:A'' = Inr (ModeEvent ''LEFT'')"
    "decode ''mode:C'' = Inr (ModeEvent ''RIGHT'')"
    "decode ''Batt: 3.91'' = Inr (BatteryEvent ''3.91'')"
    by (simp_all add: decode_def js_startsWith_def js_trim_def isWhiteSpace_def js_split_def
        index1_def modeLabel_def)
  have gen: "decode (''mode:'' @ m) = Inr (ModeEvent (js_trim m))"
    if a: "\<not> js_includes m ''Batt:''" and b: "\<not> js_includes m ''mode:''"
      and c: "js_trim m \<notin> {''0'', ''A'', ''C'', ''D''}"
  proof -
    have "split_from ''mode:'' [] (''mode:'' @ m) = [[], m]"
      using b by (intro split_from_prefix) simp_all
    then have "index1 (js_split (''mode:'' @ m) ''mode:'') = Inr m"
      by (simp add: js_split_def index1_def)
    moreover have "\<not> js_includes (''mode:'' @ m) ''Batt:''"
      using a by (rule includes_append_mode)
    moreover have "js_includes (''mode:'' @ m) ''mode:''"
      by (simp add: js_startsWith_def)
    moreover have "\<not> js_startsWith (''mode:'' @ m) ''Pulsetto_''"
      "\<not> js_startsWith (''mode:'' @ m) ''fw:''"
      by (simp_all add: js_startsWith_def)
    moreover have "modeLabel (js_trim m) = js_trim m"
      using c by (simp add: modeLabel_def)
    ultimately show ?thesis
      by (simp add: decode_def)
  qed
  from ex gen show ?thesis by blast
qed

text \<open>C9, an instance: a mode that has no label of its own.\<close>

theorem decode_examples_witness:
  "\<not> js_includes ''X'' ''Batt:'' \<and> \<not> js_includes ''X'' ''mode:'' \<and>
   js_trim ''X'' \<notin> {''0'', ''A'', ''C'', ''D''} \<and>
   decode ''mode:X'' = Inr (ModeEvent ''X'')"
proof -
  have h: "\<not> js_includes ''X'' ''Batt:''" "\<not> js_includes ''X'' ''mode:''"
    "js_trim ''X'' = ''X''"
    by (simp_all add: js_startsWith_def js_trim_def isWhiteSpace_def)
  from decode_examples [of "''X''"] h show ?thesis
    by simp
qed

subsection \<open>C10: commands without a link\<close>

text \<open>
  C10.  While the write characteristic is unset, \<^verbatim>\<open>sendCommand\<close> ends normally and
  leaves the state as it is, whatever the command: nothing is handed to the link and the
  link is not asked.  So \<^verbatim>\<open>setMode\<close> and \<^verbatim>\<open>setIntensity\<close> only store their argument,
  \<^verbatim>\<open>stopSession\<close> ends normally without a write, and the status poll does nothing.
\<close>

theorem unconnected_commands_safe:
  "\<not> connected s \<Longrightarrow>
   sendCommand cmd s = (s, Resolved) \<and>
   setMode m s = (s\<lparr>currentMode := m\<rparr>, Resolved) \<and>
   setIntensity n s = (s\<lparr>currentIntensity := n\<rparr>, Resolved) \<and>
   snd (stopSession s) = Resolved \<and>
   writeCalls (fst (stopSession s)) = writeCalls s \<and>
   faults (fst (stopSession s)) = faults s \<and>
   pollTick s = (s, Resolved) \<and>
   fire PollStatus s = s"
  by (simp add: connected_def stopSession_def pollTick_def step_defs Let_def split: option.splits)

text \<open>C10, an instance: no link yet, and a link that would reject the writes if asked.\<close>

theorem unconnected_commands_safe_witness:
  "\<not> connected deaf \<and> faults deaf = [True, True] \<and>
   sendCommand ''Q'' deaf = (deaf, Resolved) \<and>
   setMode ''A'' deaf = (deaf\<lparr>currentMode := ''A''\<rparr>, Resolved) \<and>
   setIntensity 7 deaf = (deaf\<lparr>currentIntensity := 7\<rparr>, Resolved) \<and>
   snd (stopSession deaf) = Resolved \<and>
   writeCalls (fst (stopSession deaf)) = [] \<and>
   pollTick deaf = (deaf, Resolved)"
proof -
  have n: "\<not> connected deaf"
    by (simp add: deaf_def connected_def fresh_simp blankPage_def)
  from unconnected_commands_safe [OF n, of "''Q''" "''A''" 7] n show ?thesis
    by (simp add: deaf_def fresh_simp blankPage_def)
qed

end
